theory Spec2Isabelle
  imports Complex_Main "HOL-Library.Word" "HOL-Library.Log_Nat"
begin

text \<open>
  The module \<open>app.js\<close> exports three functions: \<open>processInput\<close> validates and normalises a
  string, \<open>safeEval\<close> checks the characters of an arithmetic expression and has the language
  evaluate it, and \<open>processData\<close> doubles the numbers of an array behind a promise and a
  timer. They are embedded here as functions on JavaScript values, and the statements made
  about them are proved or refuted further down.
\<close>

section \<open>JavaScript values\<close>

text \<open>
  A JavaScript string is a sequence of 16-bit code units; \<open>length\<close> counts code units and
  a regular expression without the \<open>u\<close> flag matches code unit by code unit.
\<close>

type_synonym jschar = "16 word"
type_synonym jsstring = "jschar list"

text \<open>
  A Number is an IEEE 754 double: not-a-number, the two infinities, negative zero, and the
  finite values, carried here by the rational they denote (\<open>Fin 0\<close> is positive zero).
\<close>

datatype jsnum = NaN | PosInf | NegInf | NegZero | Fin rat

datatype jsval =
    JUndefined
  | JNull
  | JBool bool
  | JNum jsnum
  | JBigInt int
  | JStr jsstring
  | JSymbol nat
  | JArr "jsval option list"   \<comment> \<open>an Array; \<open>None\<close> is a hole of a sparse array\<close>
  | JObject nat                \<comment> \<open>any other object, by identity\<close>
  | JFunction nat

text \<open>Every \<open>throw\<close> of the module throws \<open>new Error(message)\<close>.\<close>

datatype error = Error string

datatype 'a completion = Returns 'a | Throws error

text \<open>The taxonomy of section 7 of the specification, by the message thrown.\<close>

datatype category =
  InvalidArgument | TooLong | DisallowedCharacters | TypeError | EvaluationError | Timeout

fun category_of :: "error \<Rightarrow> category option" where
  "category_of (Error m) =
     (if m = ''Input must be a non-empty string'' then Some InvalidArgument
      else if m = ''Input too long'' then Some TooLong
      else if m = ''Input contains invalid characters'' then Some DisallowedCharacters
      else if m = ''Expression must be a string'' then Some InvalidArgument
      else if m = ''Invalid characters in expression'' then Some DisallowedCharacters
      else if m = ''Invalid mathematical expression'' then Some EvaluationError
      else if m = ''Data must be an array'' then Some InvalidArgument
      else if m = ''Processing timeout'' then Some Timeout
      else if m = ''All items must be numbers'' then Some TypeError
      else None)"

fun fails_with :: "'a completion \<Rightarrow> category \<Rightarrow> bool" where
  "fails_with (Throws e) c = (category_of e = Some c)"
| "fails_with (Returns v) c = False"

fun typeof :: "jsval \<Rightarrow> string" where
  "typeof JUndefined = ''undefined''"
| "typeof JNull = ''object''"
| "typeof (JBool b) = ''boolean''"
| "typeof (JNum n) = ''number''"
| "typeof (JBigInt i) = ''bigint''"
| "typeof (JStr s) = ''string''"
| "typeof (JSymbol k) = ''symbol''"
| "typeof (JArr xs) = ''object''"
| "typeof (JObject k) = ''object''"
| "typeof (JFunction k) = ''function''"

text \<open>\<open>ToBoolean\<close>, which the operator \<open>!\<close> negates.\<close>

fun truthy :: "jsval \<Rightarrow> bool" where
  "truthy JUndefined = False"
| "truthy JNull = False"
| "truthy (JBool b) = b"
| "truthy (JNum n) = (n \<noteq> NaN \<and> n \<noteq> NegZero \<and> n \<noteq> Fin 0)"
| "truthy (JBigInt i) = (i \<noteq> 0)"
| "truthy (JStr s) = (s \<noteq> [])"
| "truthy (JSymbol k) = True"
| "truthy (JArr xs) = True"
| "truthy (JObject k) = True"
| "truthy (JFunction k) = True"

fun isArray :: "jsval \<Rightarrow> bool" where
  "isArray (JArr xs) = True"
| "isArray v = False"

text \<open>Source text written in ASCII, as code units.\<close>

definition js :: "string \<Rightarrow> jsstring" where
  "js s = map (\<lambda>c. of_nat (of_char c)) s"

section \<open>Character classes, \<open>trim\<close> and \<open>toUpperCase\<close>\<close>

text \<open>
  The class \<open>\s\<close> of a regular expression is WhiteSpace together with LineTerminator.
  \<open>String.prototype.trim\<close> strips exactly the same code units from both ends.
\<close>

definition is_line_terminator :: "jschar \<Rightarrow> bool" where
  "is_line_terminator c = (c = 0x0A \<or> c = 0x0D \<or> c = 0x2028 \<or> c = 0x2029)"

definition is_white_space :: "jschar \<Rightarrow> bool" where
  "is_white_space c =
     (c = 0x09 \<or> c = 0x0B \<or> c = 0x0C \<or> c = 0x20 \<or> c = 0xA0 \<or> c = 0x1680
      \<or> (0x2000 \<le> c \<and> c \<le> 0x200A) \<or> c = 0x202F \<or> c = 0x205F \<or> c = 0x3000
      \<or> c = 0xFEFF)"

definition is_space :: "jschar \<Rightarrow> bool" where
  "is_space c = (is_white_space c \<or> is_line_terminator c)"

definition is_digit :: "jschar \<Rightarrow> bool" where
  "is_digit c = (0x30 \<le> c \<and> c \<le> 0x39)"

definition is_lower :: "jschar \<Rightarrow> bool" where
  "is_lower c = (0x61 \<le> c \<and> c \<le> 0x7A)"

definition is_upper :: "jschar \<Rightarrow> bool" where
  "is_upper c = (0x41 \<le> c \<and> c \<le> 0x5A)"

text \<open>The class \<open>[a-zA-Z0-9\s\-_]\<close>.\<close>

definition allowed_unit :: "jschar \<Rightarrow> bool" where
  "allowed_unit c =
     (is_lower c \<or> is_upper c \<or> is_digit c \<or> is_space c \<or> c = 0x2D \<or> c = 0x5F)"

text \<open>
  \<open>/^[a-zA-Z0-9\s\-_]+$/.test(s)\<close>: the expression has no flags, so \<open>^\<close> and \<open>$\<close> are the
  two ends of the string, and \<open>test\<close> keeps no state between calls.
\<close>

definition allowedChars_test :: "jsstring \<Rightarrow> bool" where
  "allowedChars_test s = (s \<noteq> [] \<and> list_all allowed_unit s)"

definition trim :: "jsstring \<Rightarrow> jsstring" where
  "trim s = rev (dropWhile is_space (rev (dropWhile is_space s)))"

text \<open>
  \<open>toUpperCase\<close> on one code unit. Within Basic Latin only \<open>a\<close> to \<open>z\<close> change, and the
  white-space code units have no upper-case mapping, so this is what the method does on every
  code unit the pattern lets through; the other code units never reach it.
\<close>

definition upper_unit :: "jschar \<Rightarrow> jschar" where
  "upper_unit c = (if is_lower c then c - 0x20 else c)"

definition toUpperCase :: "jsstring \<Rightarrow> jsstring" where
  "toUpperCase s = map upper_unit s"

section \<open>Configuration\<close>

record config =
  maxInputLength :: nat
  allowedChars :: "jsstring \<Rightarrow> bool"
  timeout :: nat

definition config :: config where
  "config = \<lparr> maxInputLength = 1000, allowedChars = allowedChars_test, timeout = 5000 \<rparr>"

section \<open>\<open>processInput\<close>\<close>

text \<open>
  The functions read the module's \<open>config\<close>; here it is their first argument, and
  \<^term>\<open>config\<close> is the value the module gives it.
\<close>

fun processInput :: "config \<Rightarrow> jsval \<Rightarrow> jsval completion" where
  "processInput cfg (JStr s) =
     (if \<not> truthy (JStr s) then Throws (Error ''Input must be a non-empty string'')
      else if length s > maxInputLength cfg then Throws (Error ''Input too long'')
      else if \<not> allowedChars cfg s then Throws (Error ''Input contains invalid characters'')
      else Returns (JStr (toUpperCase (trim s))))"
| "processInput cfg v = Throws (Error ''Input must be a non-empty string'')"

section \<open>Number arithmetic\<close>

text \<open>
  The arithmetic operators round the exact result to the nearest double, ties to even
  (53 bits of precision, exponents from \<open>-1022\<close> to \<open>1023\<close>, gradual underflow, overflow
  to an infinity).
\<close>

definition pow2 :: "int \<Rightarrow> rat" where
  "pow2 k = (if 0 \<le> k then 2 ^ nat k else 1 / 2 ^ nat (- k))"

text \<open>For \<open>a > 0\<close>, the exponent \<open>e\<close> with \<open>2^e \<le> a < 2^(e+1)\<close>.\<close>

definition floor_log2 :: "rat \<Rightarrow> int" where
  "floor_log2 a =
     (let (n, d) = quotient_of a;
          k = bitlen n - bitlen d
      in if pow2 k \<le> a then k else k - 1)"

definition round_half_even :: "rat \<Rightarrow> int" where
  "round_half_even x =
     (let f = \<lfloor>x\<rfloor>; r = x - of_int f
      in if r < 1 / 2 then f else if 1 / 2 < r then f + 1 else if even f then f else f + 1)"

text \<open>The double nearest to a rational \<open>q \<noteq> 0\<close>; a result that rounds to zero keeps the sign.\<close>

definition round_double :: "rat \<Rightarrow> jsnum" where
  "round_double q =
     (let a = \<bar>q\<bar>;
          e = max (floor_log2 a) (- 1022);
          ulp = pow2 (e - 52);
          m = round_half_even (a / ulp);
          v = of_int m * ulp
      in if pow2 1024 \<le> v then (if q < 0 then NegInf else PosInf)
         else if m = 0 then (if q < 0 then NegZero else Fin 0)
         else Fin (if q < 0 then - v else v))"

fun negative :: "jsnum \<Rightarrow> bool" where
  "negative NegInf = True"
| "negative NegZero = True"
| "negative (Fin q) = (q < 0)"
| "negative n = False"

fun is_zero :: "jsnum \<Rightarrow> bool" where
  "is_zero NegZero = True"
| "is_zero (Fin q) = (q = 0)"
| "is_zero n = False"

fun is_infinite :: "jsnum \<Rightarrow> bool" where
  "is_infinite PosInf = True"
| "is_infinite NegInf = True"
| "is_infinite n = False"

definition zero_of :: "bool \<Rightarrow> jsnum" where
  "zero_of neg = (if neg then NegZero else Fin 0)"

definition infinity_of :: "bool \<Rightarrow> jsnum" where
  "infinity_of neg = (if neg then NegInf else PosInf)"

fun num_neg :: "jsnum \<Rightarrow> jsnum" where
  "num_neg NaN = NaN"
| "num_neg PosInf = NegInf"
| "num_neg NegInf = PosInf"
| "num_neg NegZero = Fin 0"
| "num_neg (Fin q) = (if q = 0 then NegZero else Fin (- q))"

fun num_add :: "jsnum \<Rightarrow> jsnum \<Rightarrow> jsnum" where
  "num_add NaN y = NaN"
| "num_add x NaN = NaN"
| "num_add PosInf NegInf = NaN"
| "num_add NegInf PosInf = NaN"
| "num_add PosInf y = PosInf"
| "num_add NegInf y = NegInf"
| "num_add x PosInf = PosInf"
| "num_add x NegInf = NegInf"
| "num_add NegZero y = y"
| "num_add x NegZero = x"
| "num_add (Fin a) (Fin b) = (if a + b = 0 then Fin 0 else round_double (a + b))"

definition num_sub :: "jsnum \<Rightarrow> jsnum \<Rightarrow> jsnum" where
  "num_sub x y = num_add x (num_neg y)"

fun rat_of :: "jsnum \<Rightarrow> rat" where
  "rat_of (Fin q) = q"
| "rat_of n = 0"

definition num_mul :: "jsnum \<Rightarrow> jsnum \<Rightarrow> jsnum" where
  "num_mul x y =
     (let neg = (negative x \<noteq> negative y)
      in if x = NaN \<or> y = NaN then NaN
         else if is_infinite x \<or> is_infinite y then
           (if is_zero x \<or> is_zero y then NaN else infinity_of neg)
         else if is_zero x \<or> is_zero y then zero_of neg
         else round_double (rat_of x * rat_of y))"

definition num_div :: "jsnum \<Rightarrow> jsnum \<Rightarrow> jsnum" where
  "num_div x y =
     (let neg = (negative x \<noteq> negative y)
      in if x = NaN \<or> y = NaN then NaN
         else if is_infinite x then (if is_infinite y then NaN else infinity_of neg)
         else if is_infinite y then zero_of neg
         else if is_zero y then (if is_zero x then NaN else infinity_of neg)
         else if is_zero x then zero_of neg
         else round_double (rat_of x / rat_of y))"

section \<open>\<open>safeEval\<close>\<close>

text \<open>The class \<open>[0-9+\-*/().\s]\<close> and the test \<open>/^[0-9+\-*/().\s]+$/.test(s)\<close>.\<close>

definition expression_unit :: "jschar \<Rightarrow> bool" where
  "expression_unit c =
     (is_digit c \<or> c = 0x2B \<or> c = 0x2D \<or> c = 0x2A \<or> c = 0x2F \<or> c = 0x28 \<or> c = 0x29
      \<or> c = 0x2E \<or> is_space c)"

definition expression_test :: "jsstring \<Rightarrow> bool" where
  "expression_test s = (s \<noteq> [] \<and> list_all expression_unit s)"

text \<open>
  \<open>new Function(body)()\<close> either returns a value or throws (a \<open>SyntaxError\<close> when the body
  does not parse, or whatever the body throws when it runs).
\<close>

datatype outcome = Value jsval | Exception

subsection \<open>The function bodies that are arithmetic\<close>

text \<open>
  What the language does with \<open>new Function('return ' + s)()\<close> is written out below for the
  bodies whose \<open>s\<close> is made of decimal literals, the binary and unary operators \<open>+\<close> and \<open>-\<close>,
  \<open>*\<close>, \<open>/\<close>, parentheses and white space. The characters that pass the test can also
  spell other things: a line terminator (automatic semicolon insertion), \<open>++\<close>, \<open>--\<close>, \<open>**\<close>,
  \<open>...\<close> or a lone \<open>.\<close>, a comment (\<open>//\<close>, \<open>/*\<close>), a regular expression literal (a \<open>/\<close> where
  an operand is expected), a call (a \<open>(\<close> after an operand), a literal with a leading zero
  (legacy octal) and a literal of more than 20 digits (whose rounding is left to the
  implementation). An engine also parses and compiles a body on its own stack, and throws a
  \<open>RangeError\<close> when the expression is nested too deeply for it; how deep that is depends on
  the implementation, so only the bodies of at most 256 code units, which cannot be nested
  deeply, are written out. For a body with any of the other constructs, and for a longer
  body, the functions below answer \<open>None\<close>, and the outcome is the one of the host, a
  parameter of \<open>safeEval\<close>.
\<close>

datatype token = TNum jsnum | TPlus | TMinus | TStar | TSlash | TLParen | TRParen

definition digit_value :: "jschar \<Rightarrow> int" where
  "digit_value c = uint c - 48"

definition decimal :: "jsstring \<Rightarrow> int" where
  "decimal ds = foldl (\<lambda>a c. 10 * a + digit_value c) 0 ds"

text \<open>
  A literal starts at a digit or at a dot: the digits before the dot, the digits after it, and
  the rest of the text.
\<close>

definition scan_number :: "jschar \<Rightarrow> jsstring \<Rightarrow> jsstring \<times> jsstring \<times> jsstring" where
  "scan_number c cs =
     (if c = 0x2E then ([], takeWhile is_digit cs, dropWhile is_digit cs)
      else
        let ip = c # takeWhile is_digit cs; r = dropWhile is_digit cs
        in if r \<noteq> [] \<and> hd r = 0x2E
           then (ip, takeWhile is_digit (tl r), dropWhile is_digit (tl r))
           else (ip, [], r))"

definition literal_supported :: "jsstring \<Rightarrow> jsstring \<Rightarrow> bool" where
  "literal_supported ip fp =
     ((ip \<noteq> [] \<or> fp \<noteq> []) \<and> (length ip \<le> 1 \<or> hd ip \<noteq> 0x30) \<and> length ip + length fp \<le> 20)"

text \<open>The Number value of a literal: its mathematical value, rounded.\<close>

definition literal_value :: "jsstring \<Rightarrow> jsstring \<Rightarrow> jsnum" where
  "literal_value ip fp =
     (let mv = of_int (decimal ip) + of_int (decimal fp) / 10 ^ length fp :: rat
      in if mv = 0 then Fin 0 else round_double mv)"

function lex :: "jsstring \<Rightarrow> token list option" where
  "lex [] = Some []"
| "lex (c # cs) =
     (if is_white_space c then lex cs
      else if is_digit c \<or> c = 0x2E then
        (case scan_number c cs of
           (ip, fp, rest) \<Rightarrow>
             if literal_supported ip fp
             then map_option (Cons (TNum (literal_value ip fp))) (lex rest)
             else None)
      else if c = 0x2B then
        (if cs \<noteq> [] \<and> hd cs = 0x2B then None else map_option (Cons TPlus) (lex cs))
      else if c = 0x2D then
        (if cs \<noteq> [] \<and> hd cs = 0x2D then None else map_option (Cons TMinus) (lex cs))
      else if c = 0x2A then
        (if cs \<noteq> [] \<and> hd cs = 0x2A then None else map_option (Cons TStar) (lex cs))
      else if c = 0x2F then
        (if cs \<noteq> [] \<and> (hd cs = 0x2F \<or> hd cs = 0x2A) then None
         else map_option (Cons TSlash) (lex cs))
      else if c = 0x28 then map_option (Cons TLParen) (lex cs)
      else if c = 0x29 then map_option (Cons TRParen) (lex cs)
      else None)"
  by pat_completeness auto
termination
proof -
  have a: "length (dropWhile is_digit cs) < Suc (length cs)" for cs :: jsstring
    by (simp add: less_Suc_eq_le length_dropWhile_le)
  have b: "length (dropWhile is_digit (tl (dropWhile is_digit cs))) < Suc (length cs)"
    for cs :: jsstring
  proof -
    have "length (dropWhile is_digit (tl (dropWhile is_digit cs)))
            \<le> length (tl (dropWhile is_digit cs))"
      by (rule length_dropWhile_le)
    also have "\<dots> \<le> length (dropWhile is_digit cs)" by simp
    also have "\<dots> \<le> length cs" by (rule length_dropWhile_le)
    finally show ?thesis by simp
  qed
  show ?thesis
    by (relation "measure length") (auto simp: scan_number_def Let_def a b split: if_splits)
qed

text \<open>
  A \<open>/\<close> where an operand is expected would start a regular expression literal, and a \<open>(\<close>
  after an operand would be the argument list of a call.
\<close>

fun operand_end :: "token \<Rightarrow> bool" where
  "operand_end (TNum n) = True"
| "operand_end TRParen = True"
| "operand_end t = False"

fun beyond_arithmetic :: "bool \<Rightarrow> token list \<Rightarrow> bool" where
  "beyond_arithmetic prev [] = False"
| "beyond_arithmetic prev (t # ts) =
     ((t = TSlash \<and> \<not> prev) \<or> (t = TLParen \<and> prev) \<or> beyond_arithmetic (operand_end t) ts)"

datatype expr =
    Lit jsnum
  | UPlus expr
  | UMinus expr
  | Add expr expr
  | Sub expr expr
  | Mul expr expr
  | Div expr expr

text \<open>
  The grammar of the language for these tokens:
  \<^item> PrimaryExpression: a literal, or \<open>(\<close> AdditiveExpression \<open>)\<close>;
  \<^item> UnaryExpression: PrimaryExpression, or \<open>+\<close> or \<open>-\<close> before a UnaryExpression;
  \<^item> MultiplicativeExpression: UnaryExpression, or MultiplicativeExpression, \<open>*\<close> or \<open>/\<close>,
    UnaryExpression;
  \<^item> AdditiveExpression: MultiplicativeExpression, or AdditiveExpression, \<open>+\<close> or \<open>-\<close>,
    MultiplicativeExpression.

  Each function returns the expression it has read and the tokens after it. The comparisons of
  lengths hold whenever they are reached (a parser that succeeds has consumed a token); they
  are what makes the recursion well-founded.
\<close>

fun parse_primary :: "token list \<Rightarrow> (expr \<times> token list) option"
  and parse_unary :: "token list \<Rightarrow> (expr \<times> token list) option"
  and parse_multiplicative :: "token list \<Rightarrow> (expr \<times> token list) option"
  and multiplicative_rest :: "expr \<Rightarrow> token list \<Rightarrow> (expr \<times> token list) option"
  and parse_additive :: "token list \<Rightarrow> (expr \<times> token list) option"
  and additive_rest :: "expr \<Rightarrow> token list \<Rightarrow> (expr \<times> token list) option"
where
  "parse_primary [] = None"
| "parse_primary (t # ts) =
     (case t of
        TNum n \<Rightarrow> Some (Lit n, ts)
      | TLParen \<Rightarrow>
          (case parse_additive ts of
             Some (e, TRParen # rest) \<Rightarrow> Some (e, rest)
           | _ \<Rightarrow> None)
      | _ \<Rightarrow> None)"
| "parse_unary [] = None"
| "parse_unary (t # ts) =
     (case t of
        TPlus \<Rightarrow> (case parse_unary ts of Some (e, rest) \<Rightarrow> Some (UPlus e, rest) | None \<Rightarrow> None)
      | TMinus \<Rightarrow> (case parse_unary ts of Some (e, rest) \<Rightarrow> Some (UMinus e, rest) | None \<Rightarrow> None)
      | _ \<Rightarrow> parse_primary (t # ts))"
| "parse_multiplicative ts =
     (case parse_unary ts of
        Some (e, rest) \<Rightarrow> if length rest < length ts then multiplicative_rest e rest else None
      | None \<Rightarrow> None)"
| "multiplicative_rest l [] = Some (l, [])"
| "multiplicative_rest l (t # ts) =
     (case t of
        TStar \<Rightarrow>
          (case parse_unary ts of
             Some (r, rest) \<Rightarrow>
               if length rest < length ts then multiplicative_rest (Mul l r) rest else None
           | None \<Rightarrow> None)
      | TSlash \<Rightarrow>
          (case parse_unary ts of
             Some (r, rest) \<Rightarrow>
               if length rest < length ts then multiplicative_rest (Div l r) rest else None
           | None \<Rightarrow> None)
      | _ \<Rightarrow> Some (l, t # ts))"
| "parse_additive ts =
     (case parse_multiplicative ts of
        Some (e, rest) \<Rightarrow> if length rest < length ts then additive_rest e rest else None
      | None \<Rightarrow> None)"
| "additive_rest l [] = Some (l, [])"
| "additive_rest l (t # ts) =
     (case t of
        TPlus \<Rightarrow>
          (case parse_multiplicative ts of
             Some (r, rest) \<Rightarrow>
               if length rest < length ts then additive_rest (Add l r) rest else None
           | None \<Rightarrow> None)
      | TMinus \<Rightarrow>
          (case parse_multiplicative ts of
             Some (r, rest) \<Rightarrow>
               if length rest < length ts then additive_rest (Sub l r) rest else None
           | None \<Rightarrow> None)
      | _ \<Rightarrow> Some (l, t # ts))"

fun eval :: "expr \<Rightarrow> jsnum" where
  "eval (Lit n) = n"
| "eval (UPlus e) = eval e"
| "eval (UMinus e) = num_neg (eval e)"
| "eval (Add a b) = num_add (eval a) (eval b)"
| "eval (Sub a b) = num_sub (eval a) (eval b)"
| "eval (Mul a b) = num_mul (eval a) (eval b)"
| "eval (Div a b) = num_div (eval a) (eval b)"

text \<open>
  The statement \<open>return\<close> followed by these tokens: without an expression it returns
  \<open>undefined\<close>; tokens that are not one whole expression are a \<open>SyntaxError\<close>.
\<close>

definition run_tokens :: "token list \<Rightarrow> outcome" where
  "run_tokens ts =
     (if ts = [] then Value JUndefined
      else case parse_additive ts of
             Some (e, []) \<Rightarrow> Value (JNum (eval e))
           | _ \<Rightarrow> Exception)"

text \<open>The longest body whose outcome is written out, in code units.\<close>

definition body_limit :: nat where
  "body_limit = 256"

definition run_body :: "jsstring \<Rightarrow> outcome option" where
  "run_body body =
     (if take 7 body = js ''return '' \<and> length body \<le> body_limit then
        (case lex (drop 7 body) of
           None \<Rightarrow> None
         | Some ts \<Rightarrow> if beyond_arithmetic False ts then None else Some (run_tokens ts))
      else None)"

definition new_Function_call :: "(jsstring \<Rightarrow> outcome) \<Rightarrow> jsstring \<Rightarrow> outcome" where
  "new_Function_call host body = (case run_body body of Some r \<Rightarrow> r | None \<Rightarrow> host body)"

fun safeEval :: "(jsstring \<Rightarrow> outcome) \<Rightarrow> jsval \<Rightarrow> jsval completion" where
  "safeEval host (JStr s) =
     (if \<not> truthy (JStr s) then Throws (Error ''Expression must be a string'')
      else if \<not> expression_test s then Throws (Error ''Invalid characters in expression'')
      else case new_Function_call host (js ''return '' @ s) of
             Value v \<Rightarrow> Returns v
           | Exception \<Rightarrow> Throws (Error ''Invalid mathematical expression''))"
| "safeEval host v = Throws (Error ''Expression must be a string'')"

section \<open>\<open>processData\<close>\<close>

text \<open>
  \<open>Array.prototype.map\<close> calls the function on the elements that are present, in index order,
  leaves the holes of a sparse array in place, and stops at the first exception.
\<close>

fun array_map :: "(jsval \<Rightarrow> jsval completion) \<Rightarrow> jsval option list \<Rightarrow> jsval option list completion" where
  "array_map f [] = Returns []"
| "array_map f (None # xs) =
     (case array_map f xs of Throws e \<Rightarrow> Throws e | Returns ys \<Rightarrow> Returns (None # ys))"
| "array_map f (Some x # xs) =
     (case f x of
        Throws e \<Rightarrow> Throws e
      | Returns y \<Rightarrow>
          (case array_map f xs of Throws e \<Rightarrow> Throws e | Returns ys \<Rightarrow> Returns (Some y # ys)))"

text \<open>The arrow function given to \<open>map\<close>; \<open>typeof item\<close> is \<open>'number'\<close> exactly for a Number.\<close>

fun double_item :: "jsval \<Rightarrow> jsval completion" where
  "double_item (JNum n) = Returns (JNum (num_mul n (Fin 2)))"
| "double_item item = Throws (Error ''All items must be numbers'')"

text \<open>
  The promise made by \<open>new Promise\<close>, the timers, and a clock in milliseconds. A timer callback
  of this module is the closure that rejects the promise.
\<close>

datatype settlement = Pending | Fulfilled jsval | Rejected error

datatype callback = RejectWith error

record world =
  clock :: nat
  timers :: "(nat \<times> nat \<times> callback) list"   \<comment> \<open>identifier, time due, callback\<close>
  next_timer :: nat
  promise :: settlement

definition setTimeout :: "callback \<Rightarrow> nat \<Rightarrow> world \<Rightarrow> nat \<times> world" where
  "setTimeout cb delay w =
     (next_timer w,
      w\<lparr> timers := timers w @ [(next_timer w, clock w + delay, cb)],
         next_timer := next_timer w + 1 \<rparr>)"

definition clearTimeout :: "nat \<Rightarrow> world \<Rightarrow> world" where
  "clearTimeout t w = w\<lparr> timers := filter (\<lambda>(i, due, cb). i \<noteq> t) (timers w) \<rparr>"

text \<open>A promise is settled once: later calls of \<open>resolve\<close> and \<open>reject\<close> do nothing.\<close>

definition resolve :: "jsval \<Rightarrow> world \<Rightarrow> world" where
  "resolve v w = (if promise w = Pending then w\<lparr> promise := Fulfilled v \<rparr> else w)"

definition reject :: "error \<Rightarrow> world \<Rightarrow> world" where
  "reject e w = (if promise w = Pending then w\<lparr> promise := Rejected e \<rparr> else w)"

fun run_callback :: "callback \<Rightarrow> world \<Rightarrow> world" where
  "run_callback (RejectWith e) w = reject e w"

text \<open>
  The executor of the promise runs inside the constructor, in one piece: JavaScript runs a job
  to completion, so no timer callback runs before it has finished. \<open>work items\<close> is the time
  the call of \<open>map\<close> takes.
\<close>

definition executor :: "config \<Rightarrow> (jsval option list \<Rightarrow> nat) \<Rightarrow> jsval option list \<Rightarrow> world \<Rightarrow> world" where
  "executor cfg work items w0 =
     (let (t, w1) = setTimeout (RejectWith (Error ''Processing timeout'')) (timeout cfg) w0;
          w2 = w1\<lparr> clock := clock w1 + work items \<rparr>
      in case array_map double_item items of
           Returns result \<Rightarrow> resolve (JArr result) (clearTimeout t w2)
         | Throws e \<Rightarrow> reject e (clearTimeout t w2))"

text \<open>
  Once the job has finished, the event loop runs the callbacks of the timers that are still
  set, in the order in which they fall due.
\<close>

definition event_loop :: "world \<Rightarrow> world" where
  "event_loop w =
     fold (\<lambda>(i, due, cb) w'. run_callback cb (w'\<lparr> clock := max (clock w') due \<rparr>))
       (sort_key (\<lambda>(i, due, cb). due) (timers w)) (w\<lparr> timers := [] \<rparr>)"

definition initial_world :: world where
  "initial_world = \<lparr> clock = 0, timers = [], next_timer = 1, promise = Pending \<rparr>"

text \<open>
  A call of an \<open>async\<close> function never throws: it returns a promise, an exception in the body
  rejects that promise, and a promise returned by the body settles it. The result of a call is
  modelled by how the returned promise is settled in the end.
\<close>

fun async_function :: "settlement completion \<Rightarrow> settlement completion" where
  "async_function (Throws e) = Returns (Rejected e)"
| "async_function (Returns s) = Returns s"

definition processData :: "config \<Rightarrow> (jsval option list \<Rightarrow> nat) \<Rightarrow> jsval \<Rightarrow> settlement completion" where
  "processData cfg work data =
     async_function
       (if \<not> isArray data then Throws (Error ''Data must be an array'')
        else case data of
          JArr items \<Rightarrow> Returns (promise (event_loop (executor cfg work items initial_world)))
        | _ \<Rightarrow> Throws (Error ''Data must be an array''))"

fun rejects_with :: "settlement completion \<Rightarrow> category \<Rightarrow> bool" where
  "rejects_with (Returns (Rejected e)) c = (category_of e = Some c)"
| "rejects_with r c = False"

section \<open>Notions used to state the properties\<close>

text \<open>An element of an array doubled: a Number is multiplied by two, a hole stays a hole.\<close>

fun doubled :: "jsval option \<Rightarrow> jsval option" where
  "doubled (Some (JNum n)) = Some (JNum (num_mul n (Fin 2)))"
| "doubled x = x"

text \<open>
  An expression written out with the standard precedence and left-associativity: \<open>*\<close> and
  \<open>/\<close> bind tighter than \<open>+\<close> and \<open>-\<close>, a sign binds tighter than both, operators of one
  level group to the left, and parentheses are written only where the tree departs from that.
  The level \<open>p\<close> is the one of the position the expression is written in (0 a sum, 1 a
  product, 2 a signed operand, 3 a primary).
\<close>

definition paren :: "bool \<Rightarrow> token list \<Rightarrow> token list" where
  "paren b ts = (if b then [TLParen] @ ts @ [TRParen] else ts)"

fun written :: "nat \<Rightarrow> expr \<Rightarrow> token list" where
  "written p (Lit n) = [TNum n]"
| "written p (UPlus e) = paren (2 < p) (TPlus # written 2 e)"
| "written p (UMinus e) = paren (2 < p) (TMinus # written 2 e)"
| "written p (Mul a b) = paren (1 < p) (written 1 a @ [TStar] @ written 2 b)"
| "written p (Div a b) = paren (1 < p) (written 1 a @ [TSlash] @ written 2 b)"
| "written p (Add a b) = paren (0 < p) (written 0 a @ [TPlus] @ written 1 b)"
| "written p (Sub a b) = paren (0 < p) (written 0 a @ [TMinus] @ written 1 b)"

fun continues_product :: "token list \<Rightarrow> bool" where
  "continues_product (TStar # ts) = True"
| "continues_product (TSlash # ts) = True"
| "continues_product ts = False"

fun continues_sum :: "token list \<Rightarrow> bool" where
  "continues_sum (TPlus # ts) = True"
| "continues_sum (TMinus # ts) = True"
| "continues_sum ts = False"

text \<open>A host in which every body that is not arithmetic throws.\<close>

definition strict_host :: "jsstring \<Rightarrow> outcome" where
  "strict_host body = Exception"

text \<open>What the four parsers do with an expression written at their level, whatever follows.\<close>

definition reads :: "expr \<Rightarrow> bool" where
  "reads e \<longleftrightarrow>
     (\<forall>r. \<not> continues_product r \<longrightarrow> parse_additive (written 0 e @ r) = additive_rest e r)
   \<and> (\<forall>r. parse_multiplicative (written 1 e @ r) = multiplicative_rest e r)
   \<and> (\<forall>r. parse_unary (written 2 e @ r) = Some (e, r))
   \<and> (\<forall>r. parse_primary (written 3 e @ r) = Some (e, r))"








section \<open>Properties of \<open>processInput\<close>\<close>

lemmas unit_defs =
  is_digit_def is_lower_def is_upper_def is_white_space_def is_line_terminator_def is_space_def

lemma upper_unit_space: "is_space (upper_unit c) = is_space c"
  unfolding upper_unit_def is_space_def is_lower_def is_white_space_def is_line_terminator_def
  by (auto; unat_arith)

lemma upper_unit_idem: "upper_unit (upper_unit c) = upper_unit c"
  unfolding upper_unit_def is_lower_def
  by (auto; unat_arith)

lemma upper_unit_allowed: "allowed_unit c \<Longrightarrow> allowed_unit (upper_unit c)"
  unfolding upper_unit_def allowed_unit_def is_lower_def is_upper_def
  by (auto; unat_arith)

lemma dropWhile_upper:
  "dropWhile is_space (map upper_unit s) = map upper_unit (dropWhile is_space s)"
  by (induction s) (simp_all add: upper_unit_space)

lemma trim_toUpperCase: "trim (toUpperCase s) = toUpperCase (trim s)"
  by (simp add: trim_def toUpperCase_def dropWhile_upper rev_map)

lemma toUpperCase_idem: "toUpperCase (toUpperCase s) = toUpperCase s"
  by (simp add: toUpperCase_def upper_unit_idem)

lemma dropWhile_id: "xs = [] \<or> \<not> P (hd xs) \<Longrightarrow> dropWhile P xs = xs"
  by (cases xs) auto

lemma last_dropWhile: "dropWhile P xs \<noteq> [] \<Longrightarrow> last (dropWhile P xs) = last xs"
  by (induction xs) auto

lemma trim_fixed:
  "t = [] \<or> (\<not> is_space (hd t) \<and> \<not> is_space (last t)) \<Longrightarrow> trim t = t"
  unfolding trim_def
  by (cases "t = []") (simp_all add: dropWhile_id hd_rev)

text \<open>What is left after \<open>trim\<close> neither starts nor ends with white space.\<close>

lemma trim_ends:
  "trim s = [] \<or> (\<not> is_space (hd (trim s)) \<and> \<not> is_space (last (trim s)))"
proof (cases "trim s = []")
  case True
  then show ?thesis by simp
next
  case False
  let ?a = "dropWhile is_space s"
  let ?b = "dropWhile is_space (rev ?a)"
  from False have b: "?b \<noteq> []" by (simp add: trim_def)
  have a: "?a \<noteq> []"
  proof
    assume e: "?a = []"
    have "?b = []" unfolding e by simp
    with b show False by simp
  qed
  have 1: "\<not> is_space (hd ?b)" using b by (rule hd_dropWhile)
  have 2: "\<not> is_space (hd ?a)" using a by (rule hd_dropWhile)
  have "last (trim s) = hd ?b" using b by (simp add: trim_def last_rev)
  moreover have "hd (trim s) = hd ?a"
  proof -
    have "hd (trim s) = last ?b" by (simp add: trim_def hd_rev)
    also have "\<dots> = last (rev ?a)" using b by (rule last_dropWhile)
    also have "\<dots> = hd ?a" by (simp add: last_rev)
    finally show ?thesis .
  qed
  ultimately show ?thesis using 1 2 by simp
qed

lemma trim_idem: "trim (trim s) = trim s"
  using trim_ends by (rule trim_fixed)

lemma set_trim: "set (trim s) \<subseteq> set s"
  unfolding trim_def by (auto dest!: set_dropWhileD)

lemma length_trim: "length (trim s) \<le> length s"
proof -
  have "length (trim s) \<le> length (dropWhile is_space s)"
    unfolding trim_def using length_dropWhile_le [of is_space "rev (dropWhile is_space s)"] by simp
  also have "\<dots> \<le> length s" by (rule length_dropWhile_le)
  finally show ?thesis .
qed

lemma trim_all_space:
  assumes "list_all is_space s"
  shows "trim s = []"
proof -
  have e: "dropWhile is_space s = []" using assms by (simp add: list_all_iff)
  show ?thesis unfolding trim_def e by simp
qed

lemma trim_nonempty:
  assumes "\<exists>c\<in>set s. \<not> is_space c"
  shows "trim s \<noteq> []"
proof
  let ?a = "dropWhile is_space s"
  assume "trim s = []"
  then have "\<forall>x\<in>set ?a. is_space x" by (simp add: trim_def)
  moreover have "?a \<noteq> []" using assms by simp
  then have "\<not> is_space (hd ?a)" "hd ?a \<in> set ?a" by (rule hd_dropWhile, simp)
  ultimately show False by blast
qed

text \<open>\<open>trim\<close> removes a stretch of white space at each end, and nothing else.\<close>

lemma trim_decomp:
  "\<exists>pre post. s = pre @ trim s @ post \<and> list_all is_space pre \<and> list_all is_space post"
proof -
  let ?a = "dropWhile is_space s"
  let ?post = "rev (takeWhile is_space (rev ?a))"
  have "trim s @ ?post = rev (takeWhile is_space (rev ?a) @ dropWhile is_space (rev ?a))"
    by (simp only: trim_def rev_append)
  also have "\<dots> = rev (rev ?a)" by (simp only: takeWhile_dropWhile_id)
  also have "\<dots> = ?a" by simp
  finally have "?a = trim s @ ?post" by simp
  moreover have "s = takeWhile is_space s @ ?a" by simp
  ultimately have "s = takeWhile is_space s @ trim s @ ?post" by simp
  moreover have "list_all is_space (takeWhile is_space s)"
    by (simp add: list_all_iff) (metis set_takeWhileD)
  moreover have "list_all is_space ?post"
    by (simp add: list_all_iff) (metis set_takeWhileD)
  ultimately show ?thesis by blast
qed

lemma allowed_trim_upper:
  assumes "list_all allowed_unit s"
  shows "list_all allowed_unit (toUpperCase (trim s))"
  using assms set_trim [of s]
  by (auto simp: list_all_iff toUpperCase_def upper_unit_allowed)

lemma space_allowed: "is_space c \<Longrightarrow> allowed_unit c"
  by (simp add: allowed_unit_def)

lemma processInput_accepts:
  assumes "allowedChars_test s" and "length s \<le> 1000"
  shows "processInput config (JStr s) = Returns (JStr (toUpperCase (trim s)))"
  using assms by (auto simp: config_def allowedChars_test_def)

text \<open>
  Claim C3. For every string that matches the allowed pattern and is at most 1000 code units
  long, \<open>processInput\<close> returns the input trimmed of the white space around it and converted
  to upper case: the input is a stretch of white space, the trimmed text, and a stretch of
  white space; the trimmed text neither starts nor ends with white space; and the result is
  the trimmed text with \<open>a\<close> to \<open>z\<close> replaced by \<open>A\<close> to \<open>Z\<close>. The function is pure: the
  result is a value computed from the argument and the configuration, and nothing else
  changes.
\<close>

theorem processInput_returns_trimmed_upper:
  assumes "allowedChars_test s" and "length s \<le> 1000"
  shows "processInput config (JStr s) = Returns (JStr (toUpperCase (trim s)))
         \<and> (\<exists>pre post. s = pre @ trim s @ post \<and> list_all is_space pre \<and> list_all is_space post)
         \<and> (trim s = [] \<or> (\<not> is_space (hd (trim s)) \<and> \<not> is_space (last (trim s))))
         \<and> toUpperCase (trim s)
             = map (\<lambda>c. if 0x61 \<le> c \<and> c \<le> 0x7A then c - 0x20 else c) (trim s)"
proof -
  have "toUpperCase (trim s)
          = map (\<lambda>c. if 0x61 \<le> c \<and> c \<le> 0x7A then c - 0x20 else c) (trim s)"
    by (simp add: toUpperCase_def upper_unit_def is_lower_def)
  with processInput_accepts [OF assms] trim_decomp [of s] trim_ends [of s]
  show ?thesis by blast
qed

theorem processInput_returns_trimmed_upper_witness:
  "allowedChars_test (js ''  Hello World '') \<and> length (js ''  Hello World '') \<le> 1000
   \<and> processInput config (JStr (js ''  Hello World '')) = Returns (JStr (js ''HELLO WORLD''))"
  using processInput_returns_trimmed_upper [of "js ''  Hello World ''"]
  by (simp add: js_def allowedChars_test_def allowed_unit_def unit_defs trim_def
      toUpperCase_def upper_unit_def)

text \<open>
  Claim C10. A non-empty string of white space only, at most 1000 code units long, is
  accepted, and the result is the empty string, although the empty string itself is rejected:
  the length and the pattern are checked on the input as given, and it is trimmed afterwards
  (so an input longer than 1000 code units is rejected whatever it trims to).
\<close>

theorem processInput_white_space_only:
  assumes "s \<noteq> []" and "list_all is_space s" and "length s \<le> 1000"
  shows "processInput config (JStr s) = Returns (JStr [])
         \<and> processInput config (JStr []) = Throws (Error ''Input must be a non-empty string'')
         \<and> (1000 < length u \<longrightarrow> processInput config (JStr u) = Throws (Error ''Input too long''))"
proof -
  have "list_all allowed_unit s"
    using assms(2) by (auto simp: list_all_iff space_allowed)
  with assms(1) have "allowedChars_test s"
    by (simp add: allowedChars_test_def)
  then have "processInput config (JStr s) = Returns (JStr (toUpperCase (trim s)))"
    using assms(3) by (rule processInput_accepts)
  then have "processInput config (JStr s) = Returns (JStr [])"
    using assms(2) by (simp add: trim_all_space toUpperCase_def)
  moreover have "1000 < length u \<longrightarrow> processInput config (JStr u) = Throws (Error ''Input too long'')"
    by (auto simp: config_def)
  ultimately show ?thesis by simp
qed

theorem processInput_white_space_only_witness:
  "js '' '' \<noteq> [] \<and> list_all is_space (js '' '') \<and> length (js '' '') \<le> 1000
   \<and> processInput config (JStr (js '' '')) = Returns (JStr [])
   \<and> processInput config (JStr []) = Throws (Error ''Input must be a non-empty string'')
   \<and> 1000 < length (replicate 1001 (0x20 :: jschar))
   \<and> trim (replicate 1001 0x20) = []
   \<and> processInput config (JStr (replicate 1001 0x20)) = Throws (Error ''Input too long'')"
proof -
  have 1: "js '' '' \<noteq> [] \<and> list_all is_space (js '' '') \<and> length (js '' '') \<le> 1000"
    by (simp add: js_def unit_defs)
  have 2: "1000 < length (replicate 1001 (0x20 :: jschar))" by simp
  have 3: "trim (replicate 1001 0x20) = []"
    by (rule trim_all_space) (simp add: list_all_iff unit_defs)
  from 1 2 3 processInput_white_space_only [of "js '' ''" "replicate 1001 0x20"]
  show ?thesis by simp
qed

text \<open>
  Claim C2, as stated: \<open>processInput\<close> is idempotent on every input that matches the pattern
  and is within the length bound. It fails on a single space: the input is accepted, the
  output is the empty string, and the empty string is rejected.
\<close>

theorem processInput_blank_not_idempotent:
  "allowedChars_test (js '' '') \<and> length (js '' '') \<le> 1000
   \<and> processInput config (JStr (js '' '')) = Returns (JStr [])
   \<and> processInput config (JStr []) = Throws (Error ''Input must be a non-empty string'')"
  by (simp add: js_def config_def allowedChars_test_def allowed_unit_def unit_defs trim_def
      toUpperCase_def)

text \<open>
  Claim C2, amended: \<open>processInput\<close> is idempotent on every input that matches the pattern, is
  within the length bound and has at least one code unit that is not white space: applied to
  its own output it succeeds with the same value.
\<close>

theorem processInput_idempotent:
  assumes "allowedChars_test s" and "length s \<le> 1000" and "\<exists>c\<in>set s. \<not> is_space c"
  shows "processInput config (JStr s) = Returns (JStr (toUpperCase (trim s)))
         \<and> processInput config (JStr (toUpperCase (trim s))) = Returns (JStr (toUpperCase (trim s)))"
proof -
  let ?t = "toUpperCase (trim s)"
  have first: "processInput config (JStr s) = Returns (JStr ?t)"
    using assms(1,2) by (rule processInput_accepts)
  have "?t \<noteq> []"
    using trim_nonempty [OF assms(3)] by (simp add: toUpperCase_def)
  moreover have "list_all allowed_unit ?t"
    using assms(1) by (simp add: allowedChars_test_def allowed_trim_upper)
  ultimately have "allowedChars_test ?t"
    by (simp add: allowedChars_test_def)
  moreover have "length ?t \<le> 1000"
    using length_trim [of s] assms(2) by (simp add: toUpperCase_def)
  ultimately have "processInput config (JStr ?t) = Returns (JStr (toUpperCase (trim ?t)))"
    by (rule processInput_accepts)
  also have "toUpperCase (trim ?t) = ?t"
    by (simp add: trim_toUpperCase trim_idem toUpperCase_idem)
  finally show ?thesis using first by simp
qed

theorem processInput_idempotent_witness:
  "allowedChars_test (js ''  Hello World '') \<and> length (js ''  Hello World '') \<le> 1000
   \<and> \<not> is_space 0x48 \<and> 0x48 \<in> set (js ''  Hello World '')
   \<and> processInput config (JStr (js ''  Hello World '')) = Returns (JStr (js ''HELLO WORLD''))
   \<and> processInput config (JStr (js ''HELLO WORLD'')) = Returns (JStr (js ''HELLO WORLD''))"
proof -
  have 1: "allowedChars_test (js ''  Hello World '')"
    by (simp add: js_def allowedChars_test_def allowed_unit_def unit_defs)
  have 2: "length (js ''  Hello World '') \<le> 1000"
    by (simp add: js_def)
  have 4: "\<not> is_space 0x48 \<and> 0x48 \<in> set (js ''  Hello World '')"
    by (simp add: js_def unit_defs)
  then have 3: "\<exists>c\<in>set (js ''  Hello World ''). \<not> is_space c"
    by blast
  have 5: "toUpperCase (trim (js ''  Hello World '')) = js ''HELLO WORLD''"
    by (simp add: js_def trim_def toUpperCase_def upper_unit_def unit_defs)
  from processInput_idempotent [OF 1 2 3] 1 2 4 show ?thesis
    unfolding 5 by simp
qed

text \<open>
  Claim C9, as stated: every string with a code unit outside the allowed class fails with
  DisallowedCharacters. The length is checked first: 1001 times the character \<open><\<close> fails
  with TooLong.
\<close>

theorem processInput_long_disallowed_is_too_long:
  "\<not> allowed_unit 0x3C \<and> 0x3C \<in> set (replicate 1001 (0x3C :: jschar))
   \<and> processInput config (JStr (replicate 1001 0x3C)) = Throws (Error ''Input too long'')
   \<and> \<not> fails_with (processInput config (JStr (replicate 1001 0x3C))) DisallowedCharacters"
  by (simp add: config_def allowed_unit_def unit_defs)

text \<open>
  Claim C9, amended: \<open>processInput\<close> fails with InvalidArgument for every argument that is
  absent or not a string and for the empty string; with TooLong for every string longer than
  1000 code units; and with DisallowedCharacters for every string of at most 1000 code units
  that has a code unit outside letters, digits, white space, hyphen and underscore.
\<close>

theorem processInput_rejections:
  "(typeof v \<noteq> ''string'' \<or> v = JStr [] \<longrightarrow> fails_with (processInput config v) InvalidArgument)
   \<and> (1000 < length s \<longrightarrow> fails_with (processInput config (JStr s)) TooLong)
   \<and> (length s \<le> 1000 \<and> (\<exists>c\<in>set s. \<not> allowed_unit c)
        \<longrightarrow> fails_with (processInput config (JStr s)) DisallowedCharacters)"
proof (intro conjI impI)
  assume "typeof v \<noteq> ''string'' \<or> v = JStr []"
  then show "fails_with (processInput config v) InvalidArgument"
    by (cases v) auto
next
  assume "1000 < length s"
  then show "fails_with (processInput config (JStr s)) TooLong"
    by (auto simp: config_def)
next
  assume "length s \<le> 1000 \<and> (\<exists>c\<in>set s. \<not> allowed_unit c)"
  then show "fails_with (processInput config (JStr s)) DisallowedCharacters"
    by (auto simp: config_def allowedChars_test_def list_all_iff)
qed

theorem processInput_rejections_witness:
  "typeof JUndefined \<noteq> ''string''
   \<and> fails_with (processInput config JUndefined) InvalidArgument
   \<and> fails_with (processInput config (JStr [])) InvalidArgument
   \<and> 1000 < length (replicate 1001 (0x61 :: jschar))
   \<and> fails_with (processInput config (JStr (replicate 1001 0x61))) TooLong
   \<and> length (js ''<script>'') \<le> 1000
   \<and> \<not> allowed_unit 0x3C \<and> 0x3C \<in> set (js ''<script>'')
   \<and> fails_with (processInput config (JStr (js ''<script>''))) DisallowedCharacters"
proof -
  have 1: "typeof JUndefined \<noteq> ''string''" by simp
  have 2: "1000 < length (replicate 1001 (0x61 :: jschar))" by simp
  have 3: "length (js ''<script>'') \<le> 1000" by (simp add: js_def)
  have 4: "\<not> allowed_unit 0x3C \<and> 0x3C \<in> set (js ''<script>'')"
    by (simp add: js_def allowed_unit_def unit_defs)
  then have 5: "\<exists>c\<in>set (js ''<script>''). \<not> allowed_unit c" by blast
  from 1 2 3 4 5
    processInput_rejections [of JUndefined "replicate 1001 0x61"]
    processInput_rejections [of "JStr []" "js ''<script>''"]
  show ?thesis by simp
qed

section \<open>Properties of the arithmetic\<close>

lemma round_half_even_of_int: "round_half_even (of_int n) = n"
  by (simp add: round_half_even_def)

lemma floor_log2_of_int_le:
  assumes "0 < j" and "j < 2 ^ 53"
  shows "floor_log2 (of_int j) \<le> 52"
proof -
  have "bitlen 1 = 1" by (simp add: compute_bitlen)
  moreover have "bitlen j \<le> 53"
  proof (rule ccontr)
    assume "\<not> bitlen j \<le> 53"
    then have "53 \<le> bitlen j - 1" by simp
    then have "(2::int) ^ 53 \<le> 2 ^ nat (bitlen j - 1)"
      by (intro power_increasing) auto
    with bitlen_bounds [OF assms(1)] assms(2) show False by simp
  qed
  ultimately show ?thesis
    by (simp add: floor_log2_def Let_def)
qed

text \<open>The integers below \<open>2^53\<close> in absolute value are doubles: rounding leaves them as they are.\<close>

lemma round_double_int:
  assumes "0 < j" and "j < 2 ^ 53"
  shows "round_double (of_int j) = Fin (of_int j)"
    and "round_double (- of_int j) = Fin (- of_int j)"
proof -
  define e where "e = max (floor_log2 (of_int j)) (- 1022)"
  have e: "e \<le> 52" "- 1022 \<le> e"
    using floor_log2_of_int_le [OF assms] by (simp_all add: e_def)
  define n where "n = nat (52 - e)"
  have ulp: "pow2 (e - 52) = 1 / 2 ^ n"
    using e by (auto simp: pow2_def n_def)
  have quot: "of_int j / pow2 (e - 52) = (of_int (j * 2 ^ n) :: rat)"
    by (simp add: ulp)
  have m: "round_half_even (of_int j / pow2 (e - 52)) = j * 2 ^ n"
    unfolding quot by (rule round_half_even_of_int)
  have v: "of_int (j * 2 ^ n) * pow2 (e - 52) = (of_int j :: rat)"
    by (simp add: ulp)
  have small: "\<not> pow2 1024 \<le> (of_int j :: rat)"
  proof -
    have "(of_int j :: rat) < of_int (2 ^ 53)" using assms(2) by (simp only: of_int_less_iff)
    also have "\<dots> \<le> 2 ^ 1024" by simp
    finally show ?thesis by (simp add: pow2_def)
  qed
  have nz: "j * 2 ^ n \<noteq> 0" using assms(1) by simp
  have abs1: "\<bar>of_int j :: rat\<bar> = of_int j" using assms(1) by simp
  have pos: "\<not> (of_int j :: rat) < 0" using assms(1) by simp
  show "round_double (of_int j) = Fin (of_int j)"
    unfolding round_double_def Let_def abs1 e_def [symmetric] m v
    using small nz pos by simp
  have abs2: "\<bar>- of_int j :: rat\<bar> = of_int j" using assms(1) by simp
  have neg: "(- of_int j :: rat) < 0" using assms(1) by simp
  show "round_double (- of_int j) = Fin (- of_int j)"
    unfolding round_double_def Let_def abs2 e_def [symmetric] m v
    using small nz neg by simp
qed

lemma round_double_numeral:
  "(numeral w :: int) < 2 ^ 53 \<Longrightarrow> round_double (numeral w) = Fin (numeral w)"
  "(numeral w :: int) < 2 ^ 53 \<Longrightarrow> round_double (- numeral w) = Fin (- numeral w)"
  using round_double_int [of "numeral w"] by simp_all

lemma round_double_one: "round_double 1 = Fin 1" "round_double (- 1) = Fin (- 1)"
  using round_double_int [of 1] by simp_all

text \<open>Doubling an integer below \<open>2^52\<close> in absolute value is exact.\<close>

lemma double_int:
  assumes "\<bar>k\<bar> < 2 ^ 52"
  shows "num_mul (Fin (of_int k)) (Fin 2) = Fin (of_int (2 * k))"
proof (cases "k = 0")
  case True
  then show ?thesis by (simp add: num_mul_def zero_of_def)
next
  case False
  show ?thesis
  proof (cases "0 < k")
    case True
    with assms have "0 < 2 * k" "2 * k < 2 ^ 53" by simp_all
    then have "round_double (of_int (2 * k)) = Fin (of_int (2 * k))"
      by (rule round_double_int)
    with True show ?thesis by (simp add: num_mul_def mult.commute)
  next
    case neg: False
    with False assms have "0 < 2 * (- k)" "2 * (- k) < 2 ^ 53" by simp_all
    then have "round_double (- of_int (2 * (- k))) = Fin (- of_int (2 * (- k)))"
      by (rule round_double_int)
    with False neg show ?thesis by (simp add: num_mul_def mult.commute)
  qed
qed

section \<open>Properties of the parser\<close>

text \<open>
  A parser that succeeds has consumed at least one token, so the comparisons of lengths in
  the definitions never fail.
\<close>

lemma parsers_consume:
  "parse_primary ts = Some (e, r) \<Longrightarrow> length r < length ts"
  "parse_unary ts = Some (e, r) \<Longrightarrow> length r < length ts"
  "parse_multiplicative ts = Some (e, r) \<Longrightarrow> length r < length ts"
  "multiplicative_rest l ts = Some (e, r) \<Longrightarrow> length r \<le> length ts"
  "parse_additive ts = Some (e, r) \<Longrightarrow> length r < length ts"
  "additive_rest l ts = Some (e, r) \<Longrightarrow> length r \<le> length ts"
proof (induction ts and ts and ts and l ts and ts and l ts
    arbitrary: e r and e r and e r and e r and e r and e r
    rule: parse_primary_parse_unary_parse_multiplicative_multiplicative_rest_parse_additive_additive_rest.induct)
  case 1
  then show ?case by simp
next
  case (2 t ts)
  then show ?case
    by (auto split: token.splits option.splits list.splits; fastforce)
next
  case 3
  then show ?case by simp
next
  case (4 t ts)
  then show ?case
    by (auto split: token.splits option.splits; fastforce)
next
  case (5 ts)
  from "5.prems" obtain e' rest where u: "parse_unary ts = Some (e', rest)"
    and l: "length rest < length ts" and m: "multiplicative_rest e' rest = Some (e, r)"
    by (auto split: option.splits if_splits)
  have "length r \<le> length rest"
    using "5.IH" u l m by blast
  with l show ?case by simp
next
  case (6 l)
  then show ?case by simp
next
  case (7 l t ts)
  show ?case
  proof (cases "t = TStar \<or> t = TSlash")
    case False
    with "7.prems" show ?thesis by (auto split: token.splits)
  next
    case True
    with "7.prems" obtain x rest where u: "parse_unary ts = Some (x, rest)"
      and l: "length rest < length ts"
      and m: "multiplicative_rest (Mul l x) rest = Some (e, r) \<and> t = TStar
               \<or> multiplicative_rest (Div l x) rest = Some (e, r) \<and> t = TSlash"
      by (auto split: option.splits if_splits)
    have "length r \<le> length rest"
      using "7.IH" u l m by blast
    with l show ?thesis by simp
  qed
next
  case (8 ts)
  from "8.prems" obtain e' rest where u: "parse_multiplicative ts = Some (e', rest)"
    and l: "length rest < length ts" and m: "additive_rest e' rest = Some (e, r)"
    by (auto split: option.splits if_splits)
  have "length r \<le> length rest"
    using "8.IH" u l m by blast
  with l show ?case by simp
next
  case (9 l)
  then show ?case by simp
next
  case (10 l t ts)
  show ?case
  proof (cases "t = TPlus \<or> t = TMinus")
    case False
    with "10.prems" show ?thesis by (auto split: token.splits)
  next
    case True
    with "10.prems" obtain x rest where u: "parse_multiplicative ts = Some (x, rest)"
      and l: "length rest < length ts"
      and m: "additive_rest (Add l x) rest = Some (e, r) \<and> t = TPlus
               \<or> additive_rest (Sub l x) rest = Some (e, r) \<and> t = TMinus"
      by (auto split: option.splits if_splits)
    have "length r \<le> length rest"
      using "10.IH" u l m by blast
    with l show ?thesis by simp
  qed
qed

text \<open>Hence the productions of the grammar, without the comparisons.\<close>

lemma parse_multiplicative_production:
  "parse_multiplicative ts =
     (case parse_unary ts of Some (e, rest) \<Rightarrow> multiplicative_rest e rest | None \<Rightarrow> None)"
  by (auto split: option.splits dest: parsers_consume(2))

lemma parse_additive_production:
  "parse_additive ts =
     (case parse_multiplicative ts of Some (e, rest) \<Rightarrow> additive_rest e rest | None \<Rightarrow> None)"
  by (auto split: option.splits dest: parsers_consume(3) simp del: parse_multiplicative.simps)

lemma multiplicative_rest_production:
  "multiplicative_rest l (TStar # ts) =
     (case parse_unary ts of Some (r, rest) \<Rightarrow> multiplicative_rest (Mul l r) rest | None \<Rightarrow> None)"
  "multiplicative_rest l (TSlash # ts) =
     (case parse_unary ts of Some (r, rest) \<Rightarrow> multiplicative_rest (Div l r) rest | None \<Rightarrow> None)"
  by (auto split: option.splits dest: parsers_consume(2))

lemma additive_rest_production:
  "additive_rest l (TPlus # ts) =
     (case parse_multiplicative ts of
        Some (r, rest) \<Rightarrow> additive_rest (Add l r) rest | None \<Rightarrow> None)"
  "additive_rest l (TMinus # ts) =
     (case parse_multiplicative ts of
        Some (r, rest) \<Rightarrow> additive_rest (Sub l r) rest | None \<Rightarrow> None)"
  by (auto split: option.splits dest: parsers_consume(3) simp del: parse_multiplicative.simps)

lemma written_nonempty: "0 < length (written p e)"
  by (cases e) (simp_all add: paren_def)

lemma multiplicative_rest_stop:
  "\<not> continues_product r \<Longrightarrow> multiplicative_rest l r = Some (l, r)"
  by (cases "(l, r)" rule: multiplicative_rest.cases) (auto split: token.splits)

lemma additive_rest_stop:
  "\<not> continues_sum r \<Longrightarrow> additive_rest l r = Some (l, r)"
  by (cases "(l, r)" rule: additive_rest.cases) (auto split: token.splits)

lemma reads_Lit: "reads (Lit n)"
  by (simp add: reads_def multiplicative_rest_stop)

lemma primary_of_paren:
  assumes "\<And>r. \<not> continues_product r \<Longrightarrow> parse_additive (written 0 e @ r) = additive_rest e r"
  shows "parse_primary (paren True (written 0 e) @ r) = Some (e, r)"
proof -
  have "parse_additive (written 0 e @ TRParen # r) = additive_rest e (TRParen # r)"
    by (rule assms) simp
  also have "\<dots> = Some (e, TRParen # r)"
    by (rule additive_rest_stop) simp
  finally show ?thesis
    by (simp add: paren_def)
qed

lemma unary_of_primary:
  assumes "parse_primary (paren True ts @ r) = Some (e, r)"
  shows "parse_unary (paren True ts @ r) = Some (e, r)"
  using assms by (simp add: paren_def)

lemma multiplicative_of_unary:
  assumes "parse_unary (ts @ r) = Some (e, r)" and "0 < length ts"
  shows "parse_multiplicative (ts @ r) = multiplicative_rest e r"
  using assms by simp

lemma additive_of_multiplicative:
  assumes "parse_multiplicative (ts @ r) = multiplicative_rest e r"
    and "\<not> continues_product r" and "0 < length ts"
  shows "parse_additive (ts @ r) = additive_rest e r"
  using assms by (simp add: multiplicative_rest_stop del: parse_multiplicative.simps)

lemma reads_of_additive:
  assumes a: "\<And>r. \<not> continues_product r \<Longrightarrow> parse_additive (written 0 e @ r) = additive_rest e r"
    and w: "written 1 e = paren True (written 0 e)" "written 2 e = paren True (written 0 e)"
      "written 3 e = paren True (written 0 e)"
  shows "reads e"
proof -
  have p: "parse_primary (paren True (written 0 e) @ r) = Some (e, r)" for r
    using a by (rule primary_of_paren)
  have u: "parse_unary (paren True (written 0 e) @ r) = Some (e, r)" for r
    using p by (rule unary_of_primary)
  have m: "parse_multiplicative (paren True (written 0 e) @ r) = multiplicative_rest e r" for r
    using u by (rule multiplicative_of_unary) (simp add: paren_def)
  show ?thesis
    unfolding reads_def w using a p u m by blast
qed

lemma reads_of_multiplicative:
  assumes m: "\<And>r. parse_multiplicative (written 1 e @ r) = multiplicative_rest e r"
    and w: "written 0 e = written 1 e" "written 2 e = paren True (written 0 e)"
      "written 3 e = paren True (written 0 e)"
  shows "reads e"
proof -
  have a: "parse_additive (written 0 e @ r) = additive_rest e r" if "\<not> continues_product r" for r
    unfolding w(1) using m that by (rule additive_of_multiplicative) (rule written_nonempty)
  have p: "parse_primary (paren True (written 0 e) @ r) = Some (e, r)" for r
    using a by (rule primary_of_paren)
  have u: "parse_unary (paren True (written 0 e) @ r) = Some (e, r)" for r
    using p by (rule unary_of_primary)
  show ?thesis
    unfolding reads_def w(2,3) using a m p u by blast
qed

lemma reads_of_unary:
  assumes u: "\<And>r. parse_unary (written 2 e @ r) = Some (e, r)"
    and w: "written 0 e = written 2 e" "written 1 e = written 2 e"
      "written 3 e = paren True (written 0 e)"
  shows "reads e"
proof -
  have m: "parse_multiplicative (written 2 e @ r) = multiplicative_rest e r" for r
    using u by (rule multiplicative_of_unary) (rule written_nonempty)
  have a: "parse_additive (written 0 e @ r) = additive_rest e r" if "\<not> continues_product r" for r
    unfolding w(1) using m that by (rule additive_of_multiplicative) (rule written_nonempty)
  have p: "parse_primary (paren True (written 0 e) @ r) = Some (e, r)" for r
    using a by (rule primary_of_paren)
  show ?thesis
    unfolding reads_def w(2,3) using a m p u w(1) by auto
qed

lemma reads_sum:
  assumes "reads a" and "reads b"
  shows "reads (Add a b)" and "reads (Sub a b)"
proof -
  have b: "parse_multiplicative (written 1 b @ r) = Some (b, r)" if "\<not> continues_product r" for r
    using assms(2) that
    by (simp add: reads_def multiplicative_rest_stop del: parse_multiplicative.simps)
  have len: "length r < length (written 1 b @ r)" for r
    using written_nonempty [of 1 b] by simp
  have "parse_additive (written 0 (Add a b) @ r) = additive_rest (Add a b) r"
    if "\<not> continues_product r" for r
  proof -
    have "parse_additive (written 0 (Add a b) @ r) = additive_rest a (TPlus # written 1 b @ r)"
      using assms(1) by (simp add: reads_def paren_def del: parse_additive.simps)
    also have "\<dots> = additive_rest (Add a b) r"
      using b [OF that] len [of r] by (simp del: parse_multiplicative.simps)
    finally show ?thesis .
  qed
  then show "reads (Add a b)"
    by (rule reads_of_additive) (simp_all add: paren_def)
  have "parse_additive (written 0 (Sub a b) @ r) = additive_rest (Sub a b) r"
    if "\<not> continues_product r" for r
  proof -
    have "parse_additive (written 0 (Sub a b) @ r) = additive_rest a (TMinus # written 1 b @ r)"
      using assms(1) by (simp add: reads_def paren_def del: parse_additive.simps)
    also have "\<dots> = additive_rest (Sub a b) r"
      using b [OF that] len [of r] by (simp del: parse_multiplicative.simps)
    finally show ?thesis .
  qed
  then show "reads (Sub a b)"
    by (rule reads_of_additive) (simp_all add: paren_def)
qed

lemma reads_product:
  assumes "reads a" and "reads b"
  shows "reads (Mul a b)" and "reads (Div a b)"
proof -
  have b: "parse_unary (written 2 b @ r) = Some (b, r)" for r
    using assms(2) by (simp add: reads_def)
  have len: "length r < length (written 2 b @ r)" for r
    using written_nonempty [of 2 b] by simp
  have "parse_multiplicative (written 1 (Mul a b) @ r) = multiplicative_rest (Mul a b) r" for r
  proof -
    have "parse_multiplicative (written 1 (Mul a b) @ r)
            = multiplicative_rest a (TStar # written 2 b @ r)"
      using assms(1) by (simp add: reads_def paren_def del: parse_multiplicative.simps)
    also have "\<dots> = multiplicative_rest (Mul a b) r"
      using b [of r] len [of r] by simp
    finally show ?thesis .
  qed
  then show "reads (Mul a b)"
    by (rule reads_of_multiplicative) (simp_all add: paren_def)
  have "parse_multiplicative (written 1 (Div a b) @ r) = multiplicative_rest (Div a b) r" for r
  proof -
    have "parse_multiplicative (written 1 (Div a b) @ r)
            = multiplicative_rest a (TSlash # written 2 b @ r)"
      using assms(1) by (simp add: reads_def paren_def del: parse_multiplicative.simps)
    also have "\<dots> = multiplicative_rest (Div a b) r"
      using b [of r] len [of r] by simp
    finally show ?thesis .
  qed
  then show "reads (Div a b)"
    by (rule reads_of_multiplicative) (simp_all add: paren_def)
qed

lemma reads_sign:
  assumes "reads e"
  shows "reads (UPlus e)" and "reads (UMinus e)"
proof -
  have e: "parse_unary (written 2 e @ r) = Some (e, r)" for r
    using assms by (simp add: reads_def)
  have "parse_unary (written 2 (UPlus e) @ r) = Some (UPlus e, r)" for r
    using e [of r] by (simp add: paren_def)
  then show "reads (UPlus e)"
    by (rule reads_of_unary) (simp_all add: paren_def)
  have "parse_unary (written 2 (UMinus e) @ r) = Some (UMinus e, r)" for r
    using e [of r] by (simp add: paren_def)
  then show "reads (UMinus e)"
    by (rule reads_of_unary) (simp_all add: paren_def)
qed

lemma reads_all: "reads e"
  by (induction e) (simp_all add: reads_Lit reads_sum reads_product reads_sign)

text \<open>
  The parser reads an expression written with the standard precedence and associativity
  back as the same tree.
\<close>

lemma parse_written: "parse_additive (written 0 e) = Some (e, [])"
proof -
  have "parse_additive (written 0 e @ []) = additive_rest e []"
    using reads_all [of e] unfolding reads_def by (metis continues_product.simps(3))
  then show ?thesis by (simp del: parse_additive.simps)
qed

lemma run_written: "run_tokens (written 0 e) = Value (JNum (eval e))"
  using written_nonempty [of 0 e]
  by (simp add: run_tokens_def parse_written del: parse_additive.simps)


section \<open>Properties of \<open>safeEval\<close>\<close>

lemma length_return: "length (js ''return '') = 7"
  by (simp add: js_def)

lemma run_body_return:
  assumes "length (js ''return '' @ s) \<le> body_limit"
  shows "run_body (js ''return '' @ s) =
     (case lex s of
        None \<Rightarrow> None
      | Some ts \<Rightarrow> if beyond_arithmetic False ts then None else Some (run_tokens ts))"
  using assms by (simp add: run_body_def length_return)

text \<open>A body longer than the limit is the host's, whatever it spells.\<close>

lemma run_body_long: "body_limit < length body \<Longrightarrow> run_body body = None"
  by (simp add: run_body_def)

lemma safeEval_arithmetic_text:
  assumes "expression_test s" and "length (js ''return '' @ s) \<le> body_limit"
    and "lex s = Some ts" and "\<not> beyond_arithmetic False ts"
  shows "safeEval host (JStr s) =
           (case run_tokens ts of
              Value v \<Rightarrow> Returns v
            | Exception \<Rightarrow> Throws (Error ''Invalid mathematical expression''))"
  using assms by (simp add: expression_test_def new_Function_call_def run_body_return)

text \<open>
  For a text that makes the body longer than that, the call does what the host does: where
  the engine throws, whatever the error, \<open>safeEval\<close> fails with its own message.
\<close>

lemma safeEval_long:
  assumes "expression_test s" and "body_limit < length (js ''return '' @ s)"
  shows "safeEval host (JStr s) =
           (case host (js ''return '' @ s) of
              Value v \<Rightarrow> Returns v
            | Exception \<Rightarrow> Throws (Error ''Invalid mathematical expression''))"
  using assms by (simp add: expression_test_def new_Function_call_def run_body_long)









lemma literal_digit:
  "literal_value [0x30] [] = Fin 0" "literal_value [0x31] [] = Fin 1"
  "literal_value [0x32] [] = Fin 2" "literal_value [0x33] [] = Fin 3"
  "literal_value [0x34] [] = Fin 4" "literal_value [0x35] [] = Fin 5"
  "literal_value [0x37] [] = Fin 7" "literal_value [0x38] [] = Fin 8"
  "literal_value [0x31, 0x30] [] = Fin 10"
  by (simp_all add: literal_value_def decimal_def digit_value_def round_double_numeral
      round_double_one)


lemma safeEval_rejects_non_text:
  "typeof v \<noteq> ''string'' \<or> v = JStr [] \<Longrightarrow>
     safeEval host v = Throws (Error ''Expression must be a string'')"
  by (cases v) auto

lemma safeEval_rejects_characters:
  "s \<noteq> [] \<Longrightarrow> \<exists>c\<in>set s. \<not> expression_unit c \<Longrightarrow>
     safeEval host (JStr s) = Throws (Error ''Invalid characters in expression'')"
  by (auto simp: expression_test_def list_all_iff)

lemma safeEval_alert:
  "safeEval host (JStr (js ''alert(1)'')) = Throws (Error ''Invalid characters in expression'')"
  by (rule safeEval_rejects_characters) (simp_all add: js_def expression_unit_def unit_defs)

lemma safeEval_incomplete:
  "safeEval host (JStr (js ''2 +'')) = Throws (Error ''Invalid mathematical expression'')"
proof -
  have "expression_test (js ''2 +'')"
    by (simp add: js_def expression_test_def expression_unit_def unit_defs)
  moreover have "length (js ''return '' @ js ''2 +'') \<le> body_limit"
    by (simp add: js_def body_limit_def)
  moreover have "lex (js ''2 +'') = Some [TNum (Fin 2), TPlus]"
    by (simp add: js_def unit_defs scan_number_def literal_supported_def literal_digit)
  moreover have "\<not> beyond_arithmetic False [TNum (Fin 2), TPlus]"
    by simp
  ultimately show ?thesis
    by (simp add: safeEval_arithmetic_text run_tokens_def del: safeEval.simps)
qed

section \<open>From the text to the tokens\<close>









section \<open>The claims about \<open>safeEval\<close>\<close>



















text \<open>
  Claim C6. \<open>safeEval\<close> rejects what is not a string and what has a character outside the
  class (the lemmas above), but not every string that passes the check and is not an
  expression fails with EvaluationError: for a single space the body is \<open>return\<close> alone, and
  the call returns \<open>undefined\<close> without an error.
\<close>

theorem safeEval_blank_returns_undefined:
  "expression_test (js '' '')
   \<and> safeEval host (JStr (js '' '')) = Returns JUndefined
   \<and> \<not> fails_with (safeEval host (JStr (js '' ''))) EvaluationError"
proof -
  have 1: "expression_test (js '' '')"
    by (simp add: js_def expression_test_def expression_unit_def unit_defs)
  have 2: "lex (js '' '') = Some []"
    by (simp add: js_def unit_defs)
  have 3: "length (js ''return '' @ js '' '') \<le> body_limit"
    by (simp add: js_def body_limit_def)
  have "safeEval host (JStr (js '' '')) = Returns JUndefined"
    using 1 2 3 by (simp add: safeEval_arithmetic_text run_tokens_def del: safeEval.simps)
  with 1 show ?thesis by simp
qed

section \<open>Properties of \<open>processData\<close>\<close>

lemma typeof_number: "typeof v = ''number'' \<longleftrightarrow> (\<exists>n. v = JNum n)"
  by (cases v) simp_all

lemma isArray_iff: "isArray v \<longleftrightarrow> (\<exists>items. v = JArr items)"
  by (cases v) simp_all

lemma array_map_numbers:
  assumes "\<forall>x\<in>set items. \<forall>v. x = Some v \<longrightarrow> typeof v = ''number''"
  shows "array_map double_item items = Returns (map doubled items)"
  using assms
proof (induction items)
  case Nil
  then show ?case by simp
next
  case (Cons x xs)
  then have ih: "array_map double_item xs = Returns (map doubled xs)" by simp
  show ?case
  proof (cases x)
    case None
    then show ?thesis using ih by simp
  next
    case (Some v)
    with Cons.prems obtain n where "v = JNum n" by (auto simp: typeof_number)
    with Some ih show ?thesis by simp
  qed
qed

lemma array_map_not_number:
  assumes "\<exists>x\<in>set items. \<exists>v. x = Some v \<and> typeof v \<noteq> ''number''"
  shows "array_map double_item items = Throws (Error ''All items must be numbers'')"
  using assms
proof (induction items)
  case Nil
  then show ?case by simp
next
  case (Cons x xs)
  show ?case
  proof (cases x)
    case None
    with Cons show ?thesis by auto
  next
    case (Some v)
    show ?thesis
    proof (cases "typeof v = ''number''")
      case True
      then obtain n where n: "v = JNum n" by (auto simp: typeof_number)
      with Cons Some have "array_map double_item xs = Throws (Error ''All items must be numbers'')"
        by auto
      with Some n show ?thesis by simp
    next
      case False
      then have "double_item v = Throws (Error ''All items must be numbers'')"
        by (cases v) simp_all
      with Some show ?thesis by simp
    qed
  qed
qed

lemma array_map_double_cases:
  "array_map double_item items = Returns (map doubled items)
   \<or> array_map double_item items = Throws (Error ''All items must be numbers'')"
  using array_map_numbers [of items] array_map_not_number [of items] by blast

text \<open>
  When the executor has finished, the promise is settled and the timer it set has been
  cleared, however long the call of \<open>map\<close> took.
\<close>

lemma executor_initial:
  "executor cfg work items initial_world =
     (case array_map double_item items of
        Returns result \<Rightarrow>
          \<lparr> clock = work items, timers = [], next_timer = 2, promise = Fulfilled (JArr result) \<rparr>
      | Throws e \<Rightarrow>
          \<lparr> clock = work items, timers = [], next_timer = 2, promise = Rejected e \<rparr>)"
  by (simp add: executor_def setTimeout_def clearTimeout_def initial_world_def resolve_def
      reject_def split: completion.split)

lemma event_loop_no_timers: "timers w = [] \<Longrightarrow> event_loop w = w"
  by (simp add: event_loop_def)

lemma processData_array:
  "processData cfg work (JArr items) =
     (case array_map double_item items of
        Returns result \<Rightarrow> Returns (Fulfilled (JArr result))
      | Throws e \<Rightarrow> Returns (Rejected e))"
  by (simp add: processData_def executor_initial event_loop_no_timers split: completion.split)

lemma processData_not_array:
  "\<not> isArray v \<Longrightarrow> processData cfg work v = Returns (Rejected (Error ''Data must be an array''))"
  by (simp add: processData_def)

lemma double_small:
  "num_mul (Fin 1) (Fin 2) = Fin 2" "num_mul (Fin 2) (Fin 2) = Fin 4"
  "num_mul (Fin 3) (Fin 2) = Fin 6" "num_mul (Fin 4) (Fin 2) = Fin 8"
  "num_mul (Fin 5) (Fin 2) = Fin 10"
  by (simp_all add: num_mul_def round_double_numeral)

text \<open>
  Claim C7. For every array whose elements are all Numbers, the promise of \<open>processData\<close> is
  fulfilled with an array of the same length in which each element is the corresponding
  element of the input multiplied by two (a hole of a sparse array stays a hole).
\<close>

theorem processData_doubles:
  assumes "\<forall>x\<in>set items. \<forall>v. x = Some v \<longrightarrow> typeof v = ''number''"
  shows "processData cfg work (JArr items) = Returns (Fulfilled (JArr (map doubled items)))
         \<and> length (map doubled items) = length items
         \<and> (\<forall>i<length items. \<forall>n. items ! i = Some (JNum n)
               \<longrightarrow> map doubled items ! i = Some (JNum (num_mul n (Fin 2))))"
  using array_map_numbers [OF assms] by (simp add: processData_array)

theorem processData_doubles_witness:
  "processData config length
     (JArr [Some (JNum (Fin 1)), Some (JNum (Fin 2)), Some (JNum (Fin 3)), Some (JNum (Fin 4)),
            Some (JNum (Fin 5))])
   = Returns (Fulfilled
       (JArr [Some (JNum (Fin 2)), Some (JNum (Fin 4)), Some (JNum (Fin 6)),
              Some (JNum (Fin 8)), Some (JNum (Fin 10))]))"
proof -
  let ?items = "[Some (JNum (Fin 1)), Some (JNum (Fin 2)), Some (JNum (Fin 3)),
                 Some (JNum (Fin 4)), Some (JNum (Fin 5))]"
  have 1: "\<forall>x\<in>set ?items. \<forall>v. x = Some v \<longrightarrow> typeof v = ''number''"
    by auto
  from processData_doubles [OF 1, of config length] show ?thesis
    by (simp add: double_small)
qed

text \<open>
  Claim C8. \<open>processData\<close> fails with InvalidArgument for every argument that is not an
  array, and with TypeError for every array with an element that is not a Number (a hole of a
  sparse array is not an element: \<open>map\<close> passes over it); the promise is rejected, so no
  result array is produced.
\<close>

theorem processData_rejections:
  "(\<not> isArray v \<longrightarrow> rejects_with (processData cfg work v) InvalidArgument
                     \<and> (\<forall>r. processData cfg work v \<noteq> Returns (Fulfilled r)))
   \<and> ((\<exists>x\<in>set items. \<exists>u. x = Some u \<and> typeof u \<noteq> ''number'')
        \<longrightarrow> rejects_with (processData cfg work (JArr items)) TypeError
            \<and> (\<forall>r. processData cfg work (JArr items) \<noteq> Returns (Fulfilled r)))"
  using array_map_not_number [of items]
  by (auto simp: processData_not_array processData_array)

theorem processData_rejections_witness:
  "\<not> isArray JNull \<and> rejects_with (processData config length JNull) InvalidArgument
   \<and> typeof (JStr (js ''x'')) \<noteq> ''number''
   \<and> rejects_with
        (processData config length
           (JArr [Some (JNum (Fin 1)), Some (JStr (js ''x'')), Some (JNum (Fin 3))])) TypeError"
proof -
  let ?items = "[Some (JNum (Fin 1)), Some (JStr (js ''x'')), Some (JNum (Fin 3))]"
  have 1: "\<not> isArray JNull" by simp
  have 2: "\<exists>x\<in>set ?items. \<exists>u. x = Some u \<and> typeof u \<noteq> ''number''" by simp
  from 1 2 processData_rejections [of JNull config length ?items] show ?thesis
    by simp
qed

text \<open>
  Claim C4, as stated: the InvalidArgument error of \<open>processData\<close> for an argument that is not
  an array is raised synchronously. \<open>processData\<close> is an \<open>async\<close> function: the call with
  \<open>undefined\<close> returns a promise, and the error is the reason the promise is rejected with.
\<close>

theorem processData_invalid_argument_not_thrown:
  "processData config length JUndefined = Returns (Rejected (Error ''Data must be an array''))
   \<and> \<not> fails_with (processData config length JUndefined) InvalidArgument"
  by (simp add: processData_def)

text \<open>
  Claim C4, amended: the errors of \<open>processInput\<close> and \<open>safeEval\<close> are raised synchronously
  (a failure of either is a thrown completion of the call); a call of \<open>processData\<close> never
  raises: it returns a promise that is settled, and every error, the InvalidArgument for an
  argument that is not an array as well as the TypeError, is the reason this promise is
  rejected with.
\<close>

theorem processData_errors_are_rejections:
  "(\<forall>e. processData cfg work data \<noteq> Throws e)
   \<and> (\<exists>s. processData cfg work data = Returns s \<and> s \<noteq> Pending)
   \<and> (\<not> isArray data \<longrightarrow> rejects_with (processData cfg work data) InvalidArgument)
   \<and> ((\<exists>x\<in>set items. \<exists>u. x = Some u \<and> typeof u \<noteq> ''number'')
        \<longrightarrow> rejects_with (processData cfg work (JArr items)) TypeError)
   \<and> (fails_with (processInput cfg v) c \<longrightarrow> (\<exists>e. processInput cfg v = Throws e))
   \<and> (fails_with (safeEval host v) c \<longrightarrow> (\<exists>e. safeEval host v = Throws e))"
proof -
  have "(\<forall>e. processData cfg work data \<noteq> Throws e)
      \<and> (\<exists>s. processData cfg work data = Returns s \<and> s \<noteq> Pending)
      \<and> (\<not> isArray data \<longrightarrow> rejects_with (processData cfg work data) InvalidArgument)"
  proof (cases "isArray data")
    case False
    then show ?thesis by (simp add: processData_not_array)
  next
    case True
    then obtain xs where "data = JArr xs" by (auto simp: isArray_iff)
    with array_map_double_cases [of xs] show ?thesis
      by (auto simp: processData_array)
  qed
  moreover have "(\<exists>x\<in>set items. \<exists>u. x = Some u \<and> typeof u \<noteq> ''number'')
        \<longrightarrow> rejects_with (processData cfg work (JArr items)) TypeError"
    using array_map_not_number [of items] by (auto simp: processData_array)
  moreover have "fails_with (processInput cfg v) c \<longrightarrow> (\<exists>e. processInput cfg v = Throws e)"
    by (cases "processInput cfg v") simp_all
  moreover have "fails_with (safeEval host v) c \<longrightarrow> (\<exists>e. safeEval host v = Throws e)"
    by (cases "safeEval host v") simp_all
  ultimately show ?thesis by blast
qed

theorem processData_errors_are_rejections_witness:
  "\<not> isArray JUndefined
   \<and> processData config length JUndefined \<noteq> Throws (Error ''Data must be an array'')
   \<and> rejects_with (processData config length JUndefined) InvalidArgument
   \<and> typeof (JStr (js ''x'')) \<noteq> ''number''
   \<and> rejects_with (processData config length (JArr [Some (JStr (js ''x''))])) TypeError
   \<and> fails_with (processInput config JUndefined) InvalidArgument
   \<and> processInput config JUndefined = Throws (Error ''Input must be a non-empty string'')
   \<and> fails_with (safeEval strict_host JUndefined) InvalidArgument
   \<and> safeEval strict_host JUndefined = Throws (Error ''Expression must be a string'')"
proof -
  have 1: "\<not> isArray JUndefined" by simp
  have 2: "\<exists>x\<in>set [Some (JStr (js ''x''))]. \<exists>u. x = Some u \<and> typeof u \<noteq> ''number''" by simp
  have 3: "fails_with (processInput config JUndefined) InvalidArgument" by simp
  have 4: "fails_with (safeEval strict_host JUndefined) InvalidArgument" by simp
  from 1 2 3 4
    processData_errors_are_rejections [of config length JUndefined "[Some (JStr (js ''x''))]"
      JUndefined InvalidArgument strict_host]
  show ?thesis by simp
qed

text \<open>
  Claim C1. The claim is that \<open>processData\<close> fails with Timeout when the transform takes
  longer than the configured duration, in particular with the timeout set to 0 and a large
  array. In the code the timer is set, the whole transform runs, and the timer is cleared, all
  in one job, so the callback of the timer never runs: whatever the configuration, the time
  the transform takes and the argument, the promise is never rejected with Timeout; and with
  the timeout at 0 an array of \<open>n\<close> ones is doubled, for every \<open>n\<close>.
\<close>

theorem processData_never_times_out:
  "\<not> rejects_with (processData cfg work data) Timeout
   \<and> processData (cfg\<lparr> timeout := 0 \<rparr>) work (JArr (replicate n (Some (JNum (Fin 1)))))
       = Returns (Fulfilled (JArr (replicate n (Some (JNum (Fin 2))))))"
proof
  show "\<not> rejects_with (processData cfg work data) Timeout"
  proof (cases "isArray data")
    case False
    then show ?thesis by (simp add: processData_not_array)
  next
    case True
    then obtain items where "data = JArr items" by (auto simp: isArray_iff)
    with array_map_double_cases [of items] show ?thesis
      by (auto simp: processData_array)
  qed
next
  let ?items = "replicate n (Some (JNum (Fin 1)))"
  have "array_map double_item ?items = Returns (map doubled ?items)"
    by (rule array_map_numbers) simp
  then show "processData (cfg\<lparr> timeout := 0 \<rparr>) work (JArr ?items)
       = Returns (Fulfilled (JArr (replicate n (Some (JNum (Fin 2))))))"
    by (simp add: processData_array double_small)
qed

theorem processData_never_times_out_witness:
  "timeout (config\<lparr> timeout := 0 \<rparr>) < length (replicate 1000 (Some (JNum (Fin 1))))
   \<and> processData (config\<lparr> timeout := 0 \<rparr>) length (JArr (replicate 1000 (Some (JNum (Fin 1)))))
       = Returns (Fulfilled (JArr (replicate 1000 (Some (JNum (Fin 2))))))"
  using processData_never_times_out [of config length JNull 1000]
  by simp

end
